theory Spec2Isabelle
  imports Main
begin

section \<open>The PEFT evaluation driver \<open>megatron_gpt_peft_eval.py\<close>\<close>

text \<open>
  The script is one function, \<open>main(cfg)\<close>, that wires a configuration tree into
  calls of an external training framework. The embedding keeps the configuration as
  nested records, the framework calls as events of a trace (in program order), and
  every way in which \<open>main\<close> can stop early as an error value.

  Typing of the configuration follows the use the script makes of each key:
  \<open>trainer.precision\<close> is compared with the integer 16 and the string "bf16", so it is
  a scalar that may be either; the restore paths are compared with \<open>None\<close>;
  \<open>pipeline_model_parallel_size\<close> is compared with 1 by \<open>>\<close>, so it is a Python
  integer; keys read through \<open>get(key, default)\<close> are options, \<open>None\<close> standing for
  an absent key. Floating-point scalars are not part of the model.
\<close>

subsection \<open>Configuration tree\<close>

datatype pyval = PNone | PBool bool | PInt int | PStr string

record test_ds_cfg =
  add_bos :: bool
  tokens_to_generate :: int
  global_batch_size :: int
  file_names :: "string list"

record data_cfg =
  test_ds :: test_ds_cfg

record peft_cfg =
  restore_from_path :: "string option"

text \<open>
  A model configuration. \<open>cfg.model\<close> is one; the configuration saved inside the adapter
  artifact (\<open>peft_model_cfg\<close> in the source) is another one of the same shape.
\<close>

record model_cfg =
  restore_from_path :: "string option"
  peft :: peft_cfg
  megatron_amp_O2 :: "bool option"
  gradient_as_bucket_view :: bool
  native_amp_init_scale :: "int option"
  native_amp_growth_interval :: "int option"
  hysteresis :: "int option"
  pipeline_model_parallel_size :: int
  precision :: pyval
  data :: data_cfg

record trainer_cfg =
  precision :: pyval
  devices :: int
  num_nodes :: int

record inference_cfg =
  outfile_path :: "string option"
  add_BOS :: bool
  tokens_to_generate :: int
  greedy :: bool

record config =
  model :: model_cfg
  trainer :: trainer_cfg
  inference :: inference_cfg
  cluster_type :: "string option"

subsection \<open>Objects built by the script\<close>

record grad_scaler =
  init_scale :: int
  growth_interval :: int
  hysteresis :: int
  enabled :: bool

datatype plugin =
    MegatronHalfPrecisionPlugin pyval string "grad_scaler option"
  | PipelineMixedPrecisionPlugin pyval string "grad_scaler option"
  | TorchElasticEnvironment

record batch =
  sentences :: "string list"

datatype printed = Text string | Repr "batch list"

datatype event =
    LogInfo string
  | LogConfig config
  | NewStrategy bool bool bool
  | NewGradScaler grad_scaler
  | NewPlugin plugin
  | NewTrainer "plugin list" trainer_cfg
  | RestoreConfig string
  | NewConnector string
  | SetExtractedDir string
  | RestoreModel string model_cfg
  | Freeze
  | BuildDataset test_ds_cfg
  | NewDataLoader int
  | SetInferenceConfig inference_cfg
  | Predict
  | Print printed
  | OpenWrite string
  | Write string string
  | Close string

datatype error = AssertionError | TypeError | RestoreError | PredictError | OSError

text \<open>
  What the script cannot decide by itself: the configuration stored in the adapter
  artifact, the file system, the outcome of restoring the base model, the rank of the
  process and the result of \<open>trainer.predict\<close>. \<open>None\<close> and \<open>False\<close> are the calls
  that raise.
\<close>

record env =
  peft_restore :: "model_cfg option"
  isdir :: "string \<Rightarrow> bool"
  model_restore_ok :: bool
  global_rank :: int
  predict :: "batch list option"
  open_ok :: "string \<Rightarrow> bool"

subsection \<open>Strings: \<open>str.split\<close> on one character and \<open>str.join\<close>\<close>

definition newline :: char where
  "newline = CHR 0x0A"

fun split_chr :: "char \<Rightarrow> string \<Rightarrow> string list" where
  "split_chr sep [] = [[]]"
| "split_chr sep (c # cs) =
     (if c = sep then [] # split_chr sep cs
      else (c # hd (split_chr sep cs)) # tl (split_chr sep cs))"

fun join :: "string \<Rightarrow> string list \<Rightarrow> string" where
  "join sep [] = []"
| "join sep [p] = p"
| "join sep (p # q # ps) = p @ sep @ join sep (q # ps)"

text \<open>Line 148: \<open>s = " ".join(sentence.split("\n"))\<close>.\<close>

definition flatten_sentence :: "string \<Rightarrow> string" where
  "flatten_sentence sentence = join '' '' (split_chr newline sentence)"

subsection \<open>Lines 74 to 100: precision and environment plugins\<close>

text \<open>\<open>cfg.get(key, default)\<close> on a key that may be absent.\<close>

fun get_default :: "'a option \<Rightarrow> 'a \<Rightarrow> 'a" where
  "get_default None d = d"
| "get_default (Some v) d = v"

definition with_distributed_adam :: bool where
  "with_distributed_adam = False"

definition megatron_amp_o2 :: "config \<Rightarrow> bool" where
  "megatron_amp_o2 cfg = get_default (megatron_amp_O2 (model cfg)) False"

text \<open>Line 83: \<open>cfg.trainer.precision in [16, "bf16"]\<close>.\<close>

definition precision_requested :: "config \<Rightarrow> bool" where
  "precision_requested cfg = (trainer_cfg.precision (trainer cfg) \<in> set [PInt 16, PStr ''bf16''])"

text \<open>Lines 86 to 93: the call \<open>GradScaler(...)\<close>.\<close>

definition new_grad_scaler :: "config \<Rightarrow> grad_scaler" where
  "new_grad_scaler cfg =
     \<lparr> init_scale = get_default (native_amp_init_scale (model cfg)) (2 ^ 32),
       growth_interval = get_default (native_amp_growth_interval (model cfg)) 1000,
       hysteresis = get_default (model_cfg.hysteresis (model cfg)) 2,
       enabled = (if pipeline_model_parallel_size (model cfg) > 1 then False else True) \<rparr>"

text \<open>Lines 84 to 93: the variable \<open>scaler\<close> when the plugin is built.\<close>

definition scaler :: "config \<Rightarrow> grad_scaler option" where
  "scaler cfg =
     (if trainer_cfg.precision (trainer cfg) = PInt 16 then Some (new_grad_scaler cfg) else None)"

text \<open>Lines 94 to 97: the plugin that is appended.\<close>

definition precision_plugin :: "config \<Rightarrow> plugin" where
  "precision_plugin cfg =
     (if megatron_amp_o2 cfg \<and> \<not> with_distributed_adam
      then MegatronHalfPrecisionPlugin (trainer_cfg.precision (trainer cfg)) ''cuda'' (scaler cfg)
      else PipelineMixedPrecisionPlugin (trainer_cfg.precision (trainer cfg)) ''cuda'' (scaler cfg))"

definition precision_plugins :: "config \<Rightarrow> plugin list" where
  "precision_plugins cfg = (if precision_requested cfg then [precision_plugin cfg] else [])"

definition cluster_plugins :: "config \<Rightarrow> plugin list" where
  "cluster_plugins cfg = (if cluster_type cfg = Some ''BCP'' then [TorchElasticEnvironment] else [])"

text \<open>The list \<open>plugins\<close> at line 102.\<close>

definition build_plugins :: "config \<Rightarrow> plugin list" where
  "build_plugins cfg = precision_plugins cfg @ cluster_plugins cfg"

text \<open>The constructor calls of lines 78 to 102, in the order in which they run.\<close>

definition setup_events :: "config \<Rightarrow> event list" where
  "setup_events cfg =
     [NewStrategy True (gradient_as_bucket_view (model cfg)) False]
     @ (if precision_requested cfg \<and> trainer_cfg.precision (trainer cfg) = PInt 16
        then [NewGradScaler (new_grad_scaler cfg)] else [])
     @ map NewPlugin (build_plugins cfg)
     @ [NewTrainer (build_plugins cfg) (trainer cfg)]"

subsection \<open>Lines 108 to 117: the two in-place patches\<close>

definition patch_peft_model_cfg :: "config \<Rightarrow> model_cfg \<Rightarrow> model_cfg" where
  "patch_peft_model_cfg cfg peft_model_cfg =
     peft_model_cfg
       \<lparr> model_cfg.precision := trainer_cfg.precision (trainer cfg),
         data := (data peft_model_cfg) \<lparr> test_ds := test_ds (data (model cfg)) \<rparr> \<rparr>"

definition patch_inference :: "config \<Rightarrow> model_cfg \<Rightarrow> config" where
  "patch_inference cfg peft_model_cfg =
     cfg \<lparr> inference := (inference cfg)
             \<lparr> add_BOS := add_bos (test_ds (data peft_model_cfg)),
               inference_cfg.tokens_to_generate :=
                 test_ds_cfg.tokens_to_generate (test_ds (data peft_model_cfg)) \<rparr> \<rparr>"

subsection \<open>Lines 142 to 153: writing the output\<close>

definition write_lines :: "string \<Rightarrow> batch list \<Rightarrow> event list" where
  "write_lines path response =
     concat (map (\<lambda>b. map (\<lambda>sentence. Write path (flatten_sentence sentence @ [newline]))
                           (sentences b)) response)"

definition write_output :: "env \<Rightarrow> config \<Rightarrow> batch list \<Rightarrow> event list \<times> error option" where
  "write_output e cfg response =
     (if global_rank e = 0 then
        (case outfile_path (inference cfg) of
           Some path \<Rightarrow>
             (if open_ok e path then
                ([Print (Text ''***************************''), OpenWrite path]
                 @ write_lines path response
                 @ [Close path, Print (Text (''predictions saved to '' @ path)),
                    Print (Text ''***************************'')], None)
              else ([Print (Text ''***************************'')], Some OSError))
         | None \<Rightarrow>
             ([Print (Text ''***************************''), Print (Repr response),
               Print (Text ''***************************'')], None))
      else ([Print (Text ''***************************'')], None))"

subsection \<open>The function \<open>main\<close>\<close>

definition restore_and_predict :: "env \<Rightarrow> config \<Rightarrow> string \<Rightarrow> string \<Rightarrow> event list \<times> error option" where
  "restore_and_predict e cfg base_path peft_path =
     (case peft_restore e of
        None \<Rightarrow> ([RestoreConfig peft_path], Some RestoreError)
      | Some saved \<Rightarrow>
          (let peft_model_cfg = patch_peft_model_cfg cfg saved;
               cfg' = patch_inference cfg peft_model_cfg;
               t1 = [RestoreConfig peft_path, NewConnector peft_path]
           in case model_cfg.restore_from_path peft_model_cfg of
                None \<Rightarrow> (t1, Some TypeError)
              | Some d \<Rightarrow>
                  (let t2 = t1 @ (if isdir e d then [SetExtractedDir base_path] else [])
                               @ [RestoreModel base_path peft_model_cfg]
                   in if \<not> model_restore_ok e then (t2, Some RestoreError)
                      else
                        (let t3 = t2 @ [Freeze,
                                        BuildDataset (test_ds (data peft_model_cfg)),
                                        NewDataLoader (global_batch_size (test_ds (data peft_model_cfg))),
                                        SetInferenceConfig (inference cfg'),
                                        Predict]
                         in case predict e of
                              None \<Rightarrow> (t3, Some PredictError)
                            | Some response \<Rightarrow>
                                (t3 @ fst (write_output e cfg' response),
                                 snd (write_output e cfg' response))))))"

text \<open>
  Line 70 logs a banner, line 71 the configuration as YAML. The two \<open>assert\<close> statements
  of lines 72 and 73 are taken as enabled (the interpreter is not run with \<open>-O\<close>). The
  result is the trace of calls made and \<open>None\<close> for a normal return, or the exception.
\<close>

definition experiment_banner :: string where
  "experiment_banner =
     [newline, newline] @ ''************** Experiment configuration ***********''"

definition main :: "env \<Rightarrow> config \<Rightarrow> event list \<times> error option" where
  "main e cfg =
     (let t0 = [LogInfo experiment_banner, LogConfig cfg]
      in case model_cfg.restore_from_path (model cfg) of
           None \<Rightarrow> (t0, Some AssertionError)
         | Some base_path \<Rightarrow>
             (case peft_cfg.restore_from_path (peft (model cfg)) of
                None \<Rightarrow> (t0, Some AssertionError)
              | Some peft_path \<Rightarrow>
                  (t0 @ setup_events cfg @ fst (restore_and_predict e cfg base_path peft_path),
                   snd (restore_and_predict e cfg base_path peft_path))))"

subsection \<open>Reading a trace\<close>

text \<open>The file system after a trace: opening for writing truncates, writing appends.\<close>

fun fs_step :: "(string \<rightharpoonup> string) \<Rightarrow> event \<Rightarrow> (string \<rightharpoonup> string)" where
  "fs_step fs (OpenWrite p) = fs(p \<mapsto> [])"
| "fs_step fs (Write p s) = (case fs p of None \<Rightarrow> fs | Some c \<Rightarrow> fs(p \<mapsto> c @ s))"
| "fs_step fs _ = fs"

definition files_after :: "event list \<Rightarrow> (string \<rightharpoonup> string)" where
  "files_after t = foldl fs_step Map.empty t"

fun is_construction :: "event \<Rightarrow> bool" where
  "is_construction (NewStrategy _ _ _) = True"
| "is_construction (NewGradScaler _) = True"
| "is_construction (NewPlugin _) = True"
| "is_construction (NewTrainer _ _) = True"
| "is_construction (BuildDataset _) = True"
| "is_construction (NewDataLoader _) = True"
| "is_construction _ = False"

fun is_output_write :: "event \<Rightarrow> bool" where
  "is_output_write (OpenWrite _) = True"
| "is_output_write (Write _ _) = True"
| "is_output_write (Print (Repr _)) = True"
| "is_output_write _ = False"

fun is_precision_plugin :: "plugin \<Rightarrow> bool" where
  "is_precision_plugin TorchElasticEnvironment = False"
| "is_precision_plugin _ = True"

fun plugin_scaler :: "plugin \<Rightarrow> grad_scaler option" where
  "plugin_scaler (MegatronHalfPrecisionPlugin _ _ sc) = sc"
| "plugin_scaler (PipelineMixedPrecisionPlugin _ _ sc) = sc"
| "plugin_scaler TorchElasticEnvironment = None"

fun is_half_precision :: "plugin \<Rightarrow> bool" where
  "is_half_precision (MegatronHalfPrecisionPlugin _ _ _) = True"
| "is_half_precision _ = False"

fun is_pipeline_mixed :: "plugin \<Rightarrow> bool" where
  "is_pipeline_mixed (PipelineMixedPrecisionPlugin _ _ _) = True"
| "is_pipeline_mixed _ = False"

fun is_grad_scaler :: "event \<Rightarrow> bool" where
  "is_grad_scaler (NewGradScaler _) = True"
| "is_grad_scaler _ = False"

fun is_open_write :: "event \<Rightarrow> bool" where
  "is_open_write (OpenWrite _) = True"
| "is_open_write _ = False"

fun is_set_inference :: "event \<Rightarrow> bool" where
  "is_set_inference (SetInferenceConfig _) = True"
| "is_set_inference _ = False"

subsection \<open>A concrete run\<close>

definition example_cfg :: config where
  "example_cfg =
     \<lparr> model = \<lparr> model_cfg.restore_from_path = Some ''base.nemo'',
                 peft = \<lparr> peft_cfg.restore_from_path = Some ''adapter.nemo'' \<rparr>,
                 megatron_amp_O2 = Some True,
                 gradient_as_bucket_view = False,
                 native_amp_init_scale = None,
                 native_amp_growth_interval = None,
                 model_cfg.hysteresis = None,
                 pipeline_model_parallel_size = 1,
                 model_cfg.precision = PInt 32,
                 data = \<lparr> test_ds = \<lparr> add_bos = True, test_ds_cfg.tokens_to_generate = 32,
                                        global_batch_size = 4, file_names = [''test.jsonl''] \<rparr> \<rparr> \<rparr>,
       trainer = \<lparr> trainer_cfg.precision = PInt 16, devices = 1, num_nodes = 1 \<rparr>,
       inference = \<lparr> outfile_path = Some ''out.txt'', add_BOS = False,
                     inference_cfg.tokens_to_generate = 7, greedy = True \<rparr>,
       cluster_type = Some ''BCP'' \<rparr>"

definition example_saved :: model_cfg where
  "example_saved =
     \<lparr> model_cfg.restore_from_path = Some ''train/base.nemo'',
       peft = \<lparr> peft_cfg.restore_from_path = None \<rparr>,
       megatron_amp_O2 = None,
       gradient_as_bucket_view = False,
       native_amp_init_scale = None,
       native_amp_growth_interval = None,
       model_cfg.hysteresis = None,
       pipeline_model_parallel_size = 1,
       model_cfg.precision = PStr ''bf16'',
       data = \<lparr> test_ds = \<lparr> add_bos = False, test_ds_cfg.tokens_to_generate = 99,
                              global_batch_size = 8, file_names = [] \<rparr> \<rparr> \<rparr>"

definition example_response :: "batch list" where
  "example_response =
     [\<lparr> sentences = [''a'' @ [newline] @ ''b'', ''c''] \<rparr>, \<lparr> sentences = [''d'', ''e''] \<rparr>]"

definition example_env :: env where
  "example_env =
     \<lparr> peft_restore = Some example_saved,
       isdir = (\<lambda>p. False),
       model_restore_ok = True,
       global_rank = 0,
       predict = Some example_response,
       open_ok = (\<lambda>p. True) \<rparr>"

section \<open>Properties\<close>

subsection \<open>\<open>" ".join(s.split("\n"))\<close> replaces each newline by one space\<close>








subsection \<open>The paths through \<open>main\<close>\<close>

lemma patch_keeps_restore_path:
  "model_cfg.restore_from_path (patch_peft_model_cfg cfg saved) = model_cfg.restore_from_path saved"
  by (simp add: patch_peft_model_cfg_def)

lemma write_output_cases:
  "(global_rank e \<noteq> 0 \<and> write_output e cfg r = ([Print (Text ''***************************'')], None))
   \<or> (global_rank e = 0 \<and> outfile_path (inference cfg) = None
        \<and> write_output e cfg r =
            ([Print (Text ''***************************''), Print (Repr r),
              Print (Text ''***************************'')], None))
   \<or> (\<exists>path. global_rank e = 0 \<and> outfile_path (inference cfg) = Some path \<and> \<not> open_ok e path
        \<and> write_output e cfg r = ([Print (Text ''***************************'')], Some OSError))
   \<or> (\<exists>path. global_rank e = 0 \<and> outfile_path (inference cfg) = Some path \<and> open_ok e path
        \<and> write_output e cfg r =
            ([Print (Text ''***************************''), OpenWrite path]
             @ write_lines path r
             @ [Close path, Print (Text (''predictions saved to '' @ path)),
                Print (Text ''***************************'')], None))"
  by (cases "global_rank e = 0"; cases "outfile_path (inference cfg)") (simp_all add: write_output_def)

lemma restore_and_predict_cases:
  "(peft_restore e = None
      \<and> restore_and_predict e cfg b p = ([RestoreConfig p], Some RestoreError))
   \<or> (\<exists>saved. peft_restore e = Some saved \<and> model_cfg.restore_from_path saved = None
        \<and> restore_and_predict e cfg b p = ([RestoreConfig p, NewConnector p], Some TypeError))
   \<or> (\<exists>saved d. peft_restore e = Some saved \<and> model_cfg.restore_from_path saved = Some d
        \<and> \<not> model_restore_ok e
        \<and> restore_and_predict e cfg b p =
            ([RestoreConfig p, NewConnector p] @ (if isdir e d then [SetExtractedDir b] else [])
             @ [RestoreModel b (patch_peft_model_cfg cfg saved)], Some RestoreError))
   \<or> (\<exists>saved d. peft_restore e = Some saved \<and> model_cfg.restore_from_path saved = Some d
        \<and> model_restore_ok e \<and> predict e = None
        \<and> restore_and_predict e cfg b p =
            ([RestoreConfig p, NewConnector p] @ (if isdir e d then [SetExtractedDir b] else [])
             @ [RestoreModel b (patch_peft_model_cfg cfg saved), Freeze,
                BuildDataset (test_ds (data (patch_peft_model_cfg cfg saved))),
                NewDataLoader (global_batch_size (test_ds (data (patch_peft_model_cfg cfg saved)))),
                SetInferenceConfig (inference (patch_inference cfg (patch_peft_model_cfg cfg saved))),
                Predict], Some PredictError))
   \<or> (\<exists>saved d r. peft_restore e = Some saved \<and> model_cfg.restore_from_path saved = Some d
        \<and> model_restore_ok e \<and> predict e = Some r
        \<and> restore_and_predict e cfg b p =
            ([RestoreConfig p, NewConnector p] @ (if isdir e d then [SetExtractedDir b] else [])
             @ [RestoreModel b (patch_peft_model_cfg cfg saved), Freeze,
                BuildDataset (test_ds (data (patch_peft_model_cfg cfg saved))),
                NewDataLoader (global_batch_size (test_ds (data (patch_peft_model_cfg cfg saved)))),
                SetInferenceConfig (inference (patch_inference cfg (patch_peft_model_cfg cfg saved))),
                Predict]
             @ fst (write_output e (patch_inference cfg (patch_peft_model_cfg cfg saved)) r),
             snd (write_output e (patch_inference cfg (patch_peft_model_cfg cfg saved)) r)))"
proof (cases "peft_restore e")
  case None
  then show ?thesis by (simp add: restore_and_predict_def)
next
  case (Some saved)
  note s = Some
  show ?thesis
  proof (cases "model_cfg.restore_from_path saved")
    case None
    then show ?thesis using s by (simp add: restore_and_predict_def patch_keeps_restore_path Let_def)
  next
    case (Some d)
    note d = Some
    show ?thesis
    proof (cases "model_restore_ok e")
      case False
      then show ?thesis using s d by (simp add: restore_and_predict_def patch_keeps_restore_path Let_def)
    next
      case True
      then show ?thesis using s d
        by (cases "predict e") (simp_all add: restore_and_predict_def patch_keeps_restore_path Let_def)
    qed
  qed
qed

lemma main_present:
  "model_cfg.restore_from_path (model cfg) = Some b \<Longrightarrow>
   peft_cfg.restore_from_path (peft (model cfg)) = Some p \<Longrightarrow>
   main e cfg =
     ([LogInfo experiment_banner, LogConfig cfg]
      @ setup_events cfg @ fst (restore_and_predict e cfg b p),
      snd (restore_and_predict e cfg b p))"
  by (simp add: main_def)

lemma main_absent:
  "model_cfg.restore_from_path (model cfg) = None \<or> peft_cfg.restore_from_path (peft (model cfg)) = None \<Longrightarrow>
   main e cfg =
     ([LogInfo experiment_banner, LogConfig cfg],
      Some AssertionError)"
  by (cases "model_cfg.restore_from_path (model cfg)") (auto simp: main_def)

subsection \<open>Validation of the two restore paths\<close>

text \<open>
  Claim C1. When \<open>model.restore_from_path\<close> or \<open>model.peft.restore_from_path\<close> is
  \<open>None\<close>, \<open>main\<close> raises \<open>AssertionError\<close>; all it has done by then is to log the
  banner and the configuration, so no strategy, scaler, plugin, trainer, dataset or
  dataloader has been constructed.
\<close>

theorem main_asserts_before_construction:
  "model_cfg.restore_from_path (model cfg) = None
     \<or> peft_cfg.restore_from_path (peft (model cfg)) = None \<Longrightarrow>
   snd (main e cfg) = Some AssertionError
   \<and> fst (main e cfg) =
       [LogInfo experiment_banner, LogConfig cfg]
   \<and> filter is_construction (fst (main e cfg)) = []"
  by (simp add: main_absent)

theorem main_asserts_before_construction_witness:
  "(model_cfg.restore_from_path
      (model (example_cfg\<lparr>model := (model example_cfg)\<lparr>model_cfg.restore_from_path := None\<rparr>\<rparr>)) = None
    \<or> peft_cfg.restore_from_path
      (peft (model (example_cfg\<lparr>model := (model example_cfg)\<lparr>model_cfg.restore_from_path := None\<rparr>\<rparr>))) = None)
   \<and> snd (main example_env
        (example_cfg\<lparr>model := (model example_cfg)\<lparr>model_cfg.restore_from_path := None\<rparr>\<rparr>))
       = Some AssertionError
   \<and> filter is_construction (fst (main example_env
        (example_cfg\<lparr>model := (model example_cfg)\<lparr>model_cfg.restore_from_path := None\<rparr>\<rparr>))) = []
   \<and> (model_cfg.restore_from_path
      (model (example_cfg\<lparr>model := (model example_cfg)\<lparr>peft := \<lparr>peft_cfg.restore_from_path = None\<rparr>\<rparr>\<rparr>)) = None
    \<or> peft_cfg.restore_from_path
      (peft (model (example_cfg\<lparr>model := (model example_cfg)\<lparr>peft := \<lparr>peft_cfg.restore_from_path = None\<rparr>\<rparr>\<rparr>))) = None)
   \<and> snd (main example_env
        (example_cfg\<lparr>model := (model example_cfg)\<lparr>peft := \<lparr>peft_cfg.restore_from_path = None\<rparr>\<rparr>\<rparr>))
       = Some AssertionError
   \<and> filter is_construction (fst (main example_env
        (example_cfg\<lparr>model := (model example_cfg)\<lparr>peft := \<lparr>peft_cfg.restore_from_path = None\<rparr>\<rparr>\<rparr>))) = []"
  using main_asserts_before_construction
          [of "example_cfg\<lparr>model := (model example_cfg)\<lparr>model_cfg.restore_from_path := None\<rparr>\<rparr>" example_env]
        main_asserts_before_construction
          [of "example_cfg\<lparr>model := (model example_cfg)\<lparr>peft := \<lparr>peft_cfg.restore_from_path = None\<rparr>\<rparr>\<rparr>" example_env]
  by simp

subsection \<open>Where each kind of event can occur\<close>

lemma write_lines_set: "ev \<in> set (write_lines path r) \<Longrightarrow> \<exists>s. ev = Write path s"
  by (auto simp: write_lines_def)

lemma trainer_not_in_write_output: "NewTrainer ps tc \<notin> set (fst (write_output e cfg r))"
  using write_output_cases[of e cfg r] by (auto dest: write_lines_set)

lemma trainer_not_in_restore_and_predict:
  "NewTrainer ps tc \<notin> set (fst (restore_and_predict e cfg b p))"
  using restore_and_predict_cases[of e cfg b p]
  by (auto simp: trainer_not_in_write_output)

lemma trainer_in_setup:
  "NewTrainer ps tc \<in> set (setup_events cfg) \<longleftrightarrow> ps = build_plugins cfg \<and> tc = trainer cfg"
  by (auto simp: setup_events_def)

lemma trainer_in_main:
  assumes "NewTrainer ps tc \<in> set (fst (main e cfg))"
  shows "ps = build_plugins cfg \<and> tc = trainer cfg"
proof (cases "model_cfg.restore_from_path (model cfg) = None
              \<or> peft_cfg.restore_from_path (peft (model cfg)) = None")
  case True
  then show ?thesis using assms main_absent[of cfg e] by auto
next
  case False
  then obtain b p where "model_cfg.restore_from_path (model cfg) = Some b"
    and "peft_cfg.restore_from_path (peft (model cfg)) = Some p" by auto
  then show ?thesis
    using assms main_present[of cfg b p e]
    by (auto simp: trainer_in_setup trainer_not_in_restore_and_predict)
qed

lemma no_scaler_in_write_lines: "filter is_grad_scaler (write_lines path r) = []"
  by (auto simp: filter_empty_conv dest: write_lines_set)

lemma no_scaler_in_write_output: "filter is_grad_scaler (fst (write_output e cfg r)) = []"
  using write_output_cases[of e cfg r] by (auto simp: no_scaler_in_write_lines)

lemma no_scaler_in_restore_and_predict:
  "filter is_grad_scaler (fst (restore_and_predict e cfg b p)) = []"
  using restore_and_predict_cases[of e cfg b p] by (auto simp: no_scaler_in_write_output)

lemma no_scaler_in_plugins: "filter is_grad_scaler (map NewPlugin ps) = []"
  by (induction ps) auto

lemma scaler_in_setup:
  "filter is_grad_scaler (setup_events cfg) =
     (if trainer_cfg.precision (trainer cfg) = PInt 16 then [NewGradScaler (new_grad_scaler cfg)] else [])"
  by (simp add: setup_events_def precision_requested_def no_scaler_in_plugins)

lemma scaler_in_main:
  "filter is_grad_scaler (fst (main e cfg)) =
     (if model_cfg.restore_from_path (model cfg) \<noteq> None
         \<and> peft_cfg.restore_from_path (peft (model cfg)) \<noteq> None
         \<and> trainer_cfg.precision (trainer cfg) = PInt 16
      then [NewGradScaler (new_grad_scaler cfg)] else [])"
proof (cases "model_cfg.restore_from_path (model cfg) = None
              \<or> peft_cfg.restore_from_path (peft (model cfg)) = None")
  case True
  then show ?thesis using main_absent[of cfg e] by auto
next
  case False
  then obtain b p where "model_cfg.restore_from_path (model cfg) = Some b"
    and "peft_cfg.restore_from_path (peft (model cfg)) = Some p" by auto
  then show ?thesis
    using main_present[of cfg b p e]
    by (simp add: scaler_in_setup no_scaler_in_restore_and_predict)
qed

lemma restore_model_in_main:
  assumes "RestoreModel path pc \<in> set (fst (main e cfg))"
  shows "\<exists>saved. peft_restore e = Some saved \<and> pc = patch_peft_model_cfg cfg saved
           \<and> model_cfg.restore_from_path (model cfg) = Some path"
proof (cases "model_cfg.restore_from_path (model cfg) = None
              \<or> peft_cfg.restore_from_path (peft (model cfg)) = None")
  case True
  then show ?thesis using assms main_absent[of cfg e] by auto
next
  case False
  then obtain b p where bp: "model_cfg.restore_from_path (model cfg) = Some b"
    "peft_cfg.restore_from_path (peft (model cfg)) = Some p" by auto
  have "RestoreModel path pc \<notin> set (setup_events cfg)"
    by (auto simp: setup_events_def)
  moreover have "RestoreModel path pc \<notin> set (fst (write_output e c r))" for c r
    using write_output_cases[of e c r] by (auto dest: write_lines_set)
  ultimately show ?thesis
    using assms bp main_present[of cfg b p e] restore_and_predict_cases[of e cfg b p]
    by (auto split: if_splits)
qed

lemma set_inference_in_main:
  "SetInferenceConfig ic \<in> set (fst (main e cfg)) \<longleftrightarrow>
     (\<exists>saved. model_cfg.restore_from_path (model cfg) \<noteq> None
        \<and> peft_cfg.restore_from_path (peft (model cfg)) \<noteq> None
        \<and> peft_restore e = Some saved \<and> model_cfg.restore_from_path saved \<noteq> None
        \<and> model_restore_ok e
        \<and> ic = inference (patch_inference cfg (patch_peft_model_cfg cfg saved)))"
proof (cases "model_cfg.restore_from_path (model cfg) = None
              \<or> peft_cfg.restore_from_path (peft (model cfg)) = None")
  case True
  then show ?thesis using main_absent[of cfg e] by auto
next
  case False
  then obtain b p where bp: "model_cfg.restore_from_path (model cfg) = Some b"
    "peft_cfg.restore_from_path (peft (model cfg)) = Some p" by auto
  have "SetInferenceConfig ic \<notin> set (setup_events cfg)"
    by (auto simp: setup_events_def)
  moreover have "SetInferenceConfig ic \<notin> set (fst (write_output e c r))" for c r
    using write_output_cases[of e c r] by (auto dest: write_lines_set)
  ultimately show ?thesis
    using bp main_present[of cfg b p e] restore_and_predict_cases[of e cfg b p]
    by (auto split: if_splits)
qed

lemma no_output_in_setup: "filter is_output_write (setup_events cfg) = []"
  by (auto simp: setup_events_def filter_empty_conv)

lemma output_in_main_rank:
  assumes "ev \<in> set (fst (main e cfg))" and "is_output_write ev"
  shows "global_rank e = 0"
proof (cases "model_cfg.restore_from_path (model cfg) = None
              \<or> peft_cfg.restore_from_path (peft (model cfg)) = None")
  case True
  then show ?thesis using assms main_absent[of cfg e] by auto
next
  case False
  then obtain b p where bp: "model_cfg.restore_from_path (model cfg) = Some b"
    "peft_cfg.restore_from_path (peft (model cfg)) = Some p" by auto
  have "ev \<notin> set (setup_events cfg)"
    using assms(2) no_output_in_setup[of cfg] by (auto simp: filter_empty_conv)
  moreover have "ev \<in> set (fst (write_output e c r)) \<Longrightarrow> global_rank e = 0" for c r
    using assms(2) write_output_cases[of e c r] by auto
  ultimately show ?thesis
    using assms bp main_present[of cfg b p e] restore_and_predict_cases[of e cfg b p]
    by (auto split: if_splits)
qed

lemma files_after_no_open: "filter is_open_write t = [] \<Longrightarrow> files_after t = Map.empty"
  unfolding files_after_def
proof (induction t)
  case Nil
  show ?case by simp
next
  case (Cons ev t)
  then show ?case by (cases ev) (auto split: if_splits)
qed

lemma outfile_path_patch_inference:
  "outfile_path (inference (patch_inference cfg pc)) = outfile_path (inference cfg)"
  by (simp add: patch_inference_def)

lemma open_in_write_output:
  "ev \<in> set (fst (write_output e c r)) \<Longrightarrow> is_open_write ev \<Longrightarrow> outfile_path (inference c) \<noteq> None"
  using write_output_cases[of e c r] by (auto dest: write_lines_set)

lemma open_in_main_outfile:
  assumes "ev \<in> set (fst (main e cfg))" and "is_open_write ev"
  shows "outfile_path (inference cfg) \<noteq> None"
proof (cases "model_cfg.restore_from_path (model cfg) = None
              \<or> peft_cfg.restore_from_path (peft (model cfg)) = None")
  case True
  then show ?thesis using assms main_absent[of cfg e] by auto
next
  case False
  then obtain b p where bp: "model_cfg.restore_from_path (model cfg) = Some b"
    "peft_cfg.restore_from_path (peft (model cfg)) = Some p" by auto
  have "ev \<notin> set (setup_events cfg)"
    using assms(2) by (auto simp: setup_events_def)
  then have "ev \<in> set (fst (restore_and_predict e cfg b p))"
    using assms bp main_present[of cfg b p e] by auto
  then obtain saved r where
    "ev \<in> set (fst (write_output e (patch_inference cfg (patch_peft_model_cfg cfg saved)) r))"
    using assms(2) restore_and_predict_cases[of e cfg b p] by (auto split: if_splits)
  then show ?thesis
    using assms(2) open_in_write_output outfile_path_patch_inference by metis
qed

lemma success_gives_response:
  assumes "snd (main e cfg) = None"
  shows "\<exists>saved r. peft_restore e = Some saved \<and> predict e = Some r
           \<and> set (fst (write_output e (patch_inference cfg (patch_peft_model_cfg cfg saved)) r))
               \<subseteq> set (fst (main e cfg))"
proof (cases "model_cfg.restore_from_path (model cfg) = None
              \<or> peft_cfg.restore_from_path (peft (model cfg)) = None")
  case True
  then show ?thesis using assms main_absent[of cfg e] by auto
next
  case False
  then obtain b p where bp: "model_cfg.restore_from_path (model cfg) = Some b"
    "peft_cfg.restore_from_path (peft (model cfg)) = Some p" by auto
  show ?thesis
    using assms bp main_present[of cfg b p e] restore_and_predict_cases[of e cfg b p]
    by auto
qed

text \<open>The definitions that a concrete run unfolds.\<close>

lemmas run_defs = main_def restore_and_predict_def write_output_def write_lines_def setup_events_def
  build_plugins_def precision_plugins_def precision_plugin_def cluster_plugins_def scaler_def
  new_grad_scaler_def precision_requested_def megatron_amp_o2_def with_distributed_adam_def
  patch_peft_model_cfg_def patch_inference_def flatten_sentence_def files_after_def
  example_cfg_def example_env_def example_saved_def example_response_def Let_def

subsection \<open>The output file\<close>




subsection \<open>The patched adapter configuration\<close>

text \<open>
  Claim C3. The adapter configuration that \<open>main\<close> hands to \<open>NLPModel.restore_from\<close>
  as \<open>override_config_path\<close>, that is, the restored configuration after lines 108 to 111,
  has \<open>precision\<close> equal to \<open>cfg.trainer.precision\<close> and \<open>data.test_ds\<close> equal to
  \<open>cfg.model.data.test_ds\<close>, whatever the artifact had stored.
\<close>

theorem adapter_cfg_overrides:
  "RestoreModel path pc \<in> set (fst (main e cfg)) \<Longrightarrow>
     model_cfg.precision pc = trainer_cfg.precision (trainer cfg)
     \<and> test_ds (data pc) = test_ds (data (model cfg))"
  by (drule restore_model_in_main) (auto simp: patch_peft_model_cfg_def)

theorem adapter_cfg_overrides_witness:
  "RestoreModel ''base.nemo'' (patch_peft_model_cfg example_cfg example_saved)
     \<in> set (fst (main example_env example_cfg))
   \<and> model_cfg.precision (patch_peft_model_cfg example_cfg example_saved) = PInt 16
   \<and> model_cfg.precision example_saved = PStr ''bf16''
   \<and> trainer_cfg.precision (trainer example_cfg) = PInt 16
   \<and> test_ds (data (patch_peft_model_cfg example_cfg example_saved)) = test_ds (data (model example_cfg))
   \<and> test_ds (data example_saved) \<noteq> test_ds (data (model example_cfg))"
  using adapter_cfg_overrides[of "''base.nemo''" "patch_peft_model_cfg example_cfg example_saved" example_env example_cfg]
  by (simp add: run_defs)

subsection \<open>The loss scaler\<close>

text \<open>
  Claim C4, as stated, says that with precision 16 the scaler is enabled only when the
  pipeline-parallel size equals 1 and disabled otherwise. Line 91 tests \<open>> 1\<close>: at size 0
  the size differs from 1 and the one scaler that is constructed is enabled.
\<close>

theorem grad_scaler_enabled_at_degree_zero:
  "trainer_cfg.precision (trainer (example_cfg\<lparr>model := (model example_cfg)\<lparr>pipeline_model_parallel_size := 0\<rparr>\<rparr>)) = PInt 16
   \<and> pipeline_model_parallel_size (model (example_cfg\<lparr>model := (model example_cfg)\<lparr>pipeline_model_parallel_size := 0\<rparr>\<rparr>)) \<noteq> 1
   \<and> filter is_grad_scaler (fst (main example_env
        (example_cfg\<lparr>model := (model example_cfg)\<lparr>pipeline_model_parallel_size := 0\<rparr>\<rparr>)))
      = [NewGradScaler \<lparr> init_scale = 4294967296, growth_interval = 1000, hysteresis = 2, enabled = True \<rparr>]"
  by (simp add: run_defs)

text \<open>
  Claim C4, amended. When both restore paths are present and \<open>cfg.trainer.precision\<close> is
  16, \<open>main\<close> constructs exactly one \<open>GradScaler\<close>; it is disabled exactly when
  \<open>cfg.model.pipeline_model_parallel_size\<close> is greater than 1 and enabled otherwise.
\<close>

theorem grad_scaler_enabled_unless_pipeline:
  "trainer_cfg.precision (trainer cfg) = PInt 16 \<Longrightarrow>
   model_cfg.restore_from_path (model cfg) \<noteq> None \<Longrightarrow>
   peft_cfg.restore_from_path (peft (model cfg)) \<noteq> None \<Longrightarrow>
   \<exists>sc. filter is_grad_scaler (fst (main e cfg)) = [NewGradScaler sc]
        \<and> (enabled sc \<longleftrightarrow> \<not> pipeline_model_parallel_size (model cfg) > 1)
        \<and> (\<not> enabled sc \<longleftrightarrow> pipeline_model_parallel_size (model cfg) > 1)"
  by (simp add: scaler_in_main new_grad_scaler_def)

theorem grad_scaler_enabled_unless_pipeline_witness:
  "trainer_cfg.precision (trainer example_cfg) = PInt 16
   \<and> model_cfg.restore_from_path (model example_cfg) \<noteq> None
   \<and> peft_cfg.restore_from_path (peft (model example_cfg)) \<noteq> None
   \<and> (\<exists>sc. filter is_grad_scaler (fst (main example_env example_cfg)) = [NewGradScaler sc]
          \<and> (enabled sc \<longleftrightarrow> \<not> pipeline_model_parallel_size (model example_cfg) > 1)
          \<and> (\<not> enabled sc \<longleftrightarrow> pipeline_model_parallel_size (model example_cfg) > 1))"
  using grad_scaler_enabled_unless_pipeline[of example_cfg example_env]
  by (simp add: example_cfg_def)

subsection \<open>The plugin list passed to the trainer\<close>

text \<open>
  Claim C5. The plugin list passed to \<open>Trainer\<close> contains \<open>TorchElasticEnvironment\<close>
  if and only if \<open>cfg.cluster_type\<close> is "BCP".
\<close>

theorem elastic_plugin_iff_bcp:
  "NewTrainer ps tc \<in> set (fst (main e cfg)) \<Longrightarrow>
     (TorchElasticEnvironment \<in> set ps \<longleftrightarrow> cluster_type cfg = Some ''BCP'')"
  by (drule trainer_in_main)
     (auto simp: build_plugins_def precision_plugins_def precision_plugin_def cluster_plugins_def)

theorem elastic_plugin_iff_bcp_witness:
  "NewTrainer (build_plugins example_cfg) (trainer example_cfg) \<in> set (fst (main example_env example_cfg))
   \<and> (TorchElasticEnvironment \<in> set (build_plugins example_cfg) \<longleftrightarrow> cluster_type example_cfg = Some ''BCP'')
   \<and> TorchElasticEnvironment \<in> set (build_plugins example_cfg)
   \<and> NewTrainer (build_plugins (example_cfg\<lparr>cluster_type := None\<rparr>)) (trainer (example_cfg\<lparr>cluster_type := None\<rparr>))
        \<in> set (fst (main example_env (example_cfg\<lparr>cluster_type := None\<rparr>)))
   \<and> TorchElasticEnvironment \<notin> set (build_plugins (example_cfg\<lparr>cluster_type := None\<rparr>))"
  using elastic_plugin_iff_bcp[of "build_plugins example_cfg" "trainer example_cfg" example_env example_cfg]
    elastic_plugin_iff_bcp[of "build_plugins (example_cfg\<lparr>cluster_type := None\<rparr>)" "trainer (example_cfg\<lparr>cluster_type := None\<rparr>)"
          example_env "example_cfg\<lparr>cluster_type := None\<rparr>"]
  by (simp add: run_defs)

text \<open>
  Claim C6. The plugin list passed to \<open>Trainer\<close> holds a precision plugin if and only
  if \<open>cfg.trainer.precision\<close> is 16 or "bf16", and never more than one; that plugin is
  \<open>MegatronHalfPrecisionPlugin\<close> exactly when \<open>megatron_amp_O2\<close> is true and
  \<open>PipelineMixedPrecisionPlugin\<close> otherwise.
\<close>

theorem precision_plugin_selection:
  "NewTrainer ps tc \<in> set (fst (main e cfg)) \<Longrightarrow>
     (filter is_precision_plugin ps \<noteq> [] \<longleftrightarrow>
        (trainer_cfg.precision (trainer cfg) = PInt 16 \<or> trainer_cfg.precision (trainer cfg) = PStr ''bf16''))
     \<and> length (filter is_precision_plugin ps) \<le> 1
     \<and> (filter is_half_precision ps \<noteq> [] \<longleftrightarrow>
          filter is_precision_plugin ps \<noteq> [] \<and> megatron_amp_O2 (model cfg) = Some True)
     \<and> (filter is_pipeline_mixed ps \<noteq> [] \<longleftrightarrow>
          filter is_precision_plugin ps \<noteq> [] \<and> megatron_amp_O2 (model cfg) \<noteq> Some True)"
  by (drule trainer_in_main, cases "megatron_amp_O2 (model cfg)")
     (auto simp: build_plugins_def precision_plugins_def precision_plugin_def cluster_plugins_def
        precision_requested_def megatron_amp_o2_def with_distributed_adam_def)

theorem precision_plugin_selection_witness:
  "NewTrainer (build_plugins example_cfg) (trainer example_cfg) \<in> set (fst (main example_env example_cfg))
   \<and> trainer_cfg.precision (trainer example_cfg) = PInt 16
   \<and> megatron_amp_O2 (model example_cfg) = Some True
   \<and> filter is_precision_plugin (build_plugins example_cfg) \<noteq> []
   \<and> filter is_half_precision (build_plugins example_cfg) \<noteq> []
   \<and> filter is_pipeline_mixed (build_plugins example_cfg) = []"
  using precision_plugin_selection[of "build_plugins example_cfg" "trainer example_cfg" example_env example_cfg]
  by (simp add: run_defs)

text \<open>
  Claim C9. With \<open>cfg.trainer.precision\<close> equal to "bf16" no \<open>GradScaler\<close> is ever
  constructed, and the one precision plugin in the list passed to \<open>Trainer\<close> was built
  with \<open>scaler=None\<close>.
\<close>

theorem bf16_has_no_scaler:
  "trainer_cfg.precision (trainer cfg) = PStr ''bf16'' \<Longrightarrow>
     filter is_grad_scaler (fst (main e cfg)) = []
     \<and> (NewTrainer ps tc \<in> set (fst (main e cfg)) \<longrightarrow>
          length (filter is_precision_plugin ps) = 1
          \<and> map plugin_scaler (filter is_precision_plugin ps) = [None])"
  by (auto simp: scaler_in_main dest!: trainer_in_main)
     (auto simp: build_plugins_def precision_plugins_def precision_plugin_def cluster_plugins_def
        precision_requested_def scaler_def)

theorem bf16_has_no_scaler_witness:
  "trainer_cfg.precision (trainer (example_cfg\<lparr>trainer := (trainer example_cfg)\<lparr>trainer_cfg.precision := PStr ''bf16''\<rparr>\<rparr>)) = PStr ''bf16''
   \<and> filter is_grad_scaler (fst (main example_env
         (example_cfg\<lparr>trainer := (trainer example_cfg)\<lparr>trainer_cfg.precision := PStr ''bf16''\<rparr>\<rparr>))) = []
   \<and> NewTrainer [MegatronHalfPrecisionPlugin (PStr ''bf16'') ''cuda'' None, TorchElasticEnvironment]
         (trainer (example_cfg\<lparr>trainer := (trainer example_cfg)\<lparr>trainer_cfg.precision := PStr ''bf16''\<rparr>\<rparr>))
       \<in> set (fst (main example_env
         (example_cfg\<lparr>trainer := (trainer example_cfg)\<lparr>trainer_cfg.precision := PStr ''bf16''\<rparr>\<rparr>)))
   \<and> map plugin_scaler (filter is_precision_plugin
         [MegatronHalfPrecisionPlugin (PStr ''bf16'') ''cuda'' None, TorchElasticEnvironment]) = [None]"
  using bf16_has_no_scaler[of "example_cfg\<lparr>trainer := (trainer example_cfg)\<lparr>trainer_cfg.precision := PStr ''bf16''\<rparr>\<rparr>"
             example_env
             "[MegatronHalfPrecisionPlugin (PStr ''bf16'') ''cuda'' None, TorchElasticEnvironment]"
             "trainer (example_cfg\<lparr>trainer := (trainer example_cfg)\<lparr>trainer_cfg.precision := PStr ''bf16''\<rparr>\<rparr>)"]
  by (simp add: run_defs)

subsection \<open>Who writes the output\<close>

text \<open>
  Claim C7. On a process whose global rank is not zero, a run opens no output file,
  writes nothing to one and does not print the response structure: these three happen
  only on rank zero.
\<close>

theorem output_only_on_rank_zero:
  "global_rank e \<noteq> 0 \<Longrightarrow> filter is_output_write (fst (main e cfg)) = []"
  by (auto simp: filter_empty_conv dest: output_in_main_rank)

theorem output_only_on_rank_zero_witness:
  "global_rank (example_env\<lparr>global_rank := 1\<rparr>) \<noteq> 0
   \<and> filter is_output_write (fst (main (example_env\<lparr>global_rank := 1\<rparr>) example_cfg)) = []
   \<and> snd (main (example_env\<lparr>global_rank := 1\<rparr>) example_cfg) = None
   \<and> global_rank example_env = 0
   \<and> filter is_output_write (fst (main example_env example_cfg)) \<noteq> []"
  using output_only_on_rank_zero[of "example_env\<lparr>global_rank := 1\<rparr>" example_cfg]
  by (simp add: run_defs)

text \<open>
  Claim C8, as stated, speaks of every run with \<open>inference.outfile_path\<close> unset. The
  print of line 152 sits under the test \<open>model.global_rank == 0\<close> of line 142: on rank 1
  such a run returns normally, creates no file, and does not print the response.
\<close>

theorem response_not_printed_on_rank_one:
  "outfile_path (inference (example_cfg\<lparr>inference := (inference example_cfg)\<lparr>outfile_path := None\<rparr>\<rparr>)) = None
   \<and> predict (example_env\<lparr>global_rank := 1\<rparr>) = Some example_response
   \<and> snd (main (example_env\<lparr>global_rank := 1\<rparr>)
        (example_cfg\<lparr>inference := (inference example_cfg)\<lparr>outfile_path := None\<rparr>\<rparr>)) = None
   \<and> Print (Repr example_response)
        \<notin> set (fst (main (example_env\<lparr>global_rank := 1\<rparr>)
             (example_cfg\<lparr>inference := (inference example_cfg)\<lparr>outfile_path := None\<rparr>\<rparr>)))
   \<and> filter is_output_write (fst (main (example_env\<lparr>global_rank := 1\<rparr>)
        (example_cfg\<lparr>inference := (inference example_cfg)\<lparr>outfile_path := None\<rparr>\<rparr>))) = []"
  by (simp add: run_defs)

text \<open>
  Claim C8, amended. With \<open>inference.outfile_path\<close> unset, no run opens a file for
  writing, so no file is created; and on the coordinating process (global rank zero) a
  run that returns normally has printed the raw response of \<open>trainer.predict\<close>.
\<close>

theorem no_outfile_prints_response:
  "outfile_path (inference cfg) = None \<Longrightarrow>
     filter is_open_write (fst (main e cfg)) = []
     \<and> files_after (fst (main e cfg)) = Map.empty
     \<and> (global_rank e = 0 \<and> snd (main e cfg) = None \<longrightarrow>
          (\<exists>r. predict e = Some r \<and> Print (Repr r) \<in> set (fst (main e cfg))))"
proof -
  assume none: "outfile_path (inference cfg) = None"
  have no_open: "filter is_open_write (fst (main e cfg)) = []"
    using none by (auto simp: filter_empty_conv dest: open_in_main_outfile)
  have printed: "\<exists>r. predict e = Some r \<and> Print (Repr r) \<in> set (fst (main e cfg))"
    if rank: "global_rank e = 0" and ok: "snd (main e cfg) = None"
  proof -
    obtain saved r where r: "predict e = Some r"
      and sub: "set (fst (write_output e (patch_inference cfg (patch_peft_model_cfg cfg saved)) r))
               \<subseteq> set (fst (main e cfg))"
      using success_gives_response[OF ok] by blast
    have "Print (Repr r) \<in> set (fst (write_output e (patch_inference cfg (patch_peft_model_cfg cfg saved)) r))"
      using rank none by (simp add: write_output_def outfile_path_patch_inference)
    then show ?thesis using r sub by blast
  qed
  show ?thesis using no_open printed by (simp add: files_after_no_open)
qed

theorem no_outfile_prints_response_witness:
  "outfile_path (inference (example_cfg\<lparr>inference := (inference example_cfg)\<lparr>outfile_path := None\<rparr>\<rparr>)) = None
   \<and> global_rank example_env = 0
   \<and> snd (main example_env (example_cfg\<lparr>inference := (inference example_cfg)\<lparr>outfile_path := None\<rparr>\<rparr>)) = None
   \<and> filter is_open_write
        (fst (main example_env (example_cfg\<lparr>inference := (inference example_cfg)\<lparr>outfile_path := None\<rparr>\<rparr>))) = []
   \<and> Print (Repr example_response)
        \<in> set (fst (main example_env (example_cfg\<lparr>inference := (inference example_cfg)\<lparr>outfile_path := None\<rparr>\<rparr>)))"
  using no_outfile_prints_response[of "example_cfg\<lparr>inference := (inference example_cfg)\<lparr>outfile_path := None\<rparr>\<rparr>" example_env]
  by (simp add: run_defs)

subsection \<open>The inference configuration\<close>

text \<open>
  Claim C10. The inference configuration pushed into the model has \<open>add_BOS\<close> and
  \<open>tokens_to_generate\<close> equal to \<open>data.test_ds.add_bos\<close> and
  \<open>data.test_ds.tokens_to_generate\<close> of the adapter configuration as patched at line 111
  (hence equal to those of \<open>cfg.model.data.test_ds\<close>), and it is the same whatever
  values the two inference keys had in the configuration given to \<open>main\<close>.
\<close>

theorem inference_keys_overwritten:
  "SetInferenceConfig ic \<in> set (fst (main e cfg)) \<Longrightarrow>
     (\<exists>saved. peft_restore e = Some saved
        \<and> add_BOS ic = add_bos (test_ds (data (patch_peft_model_cfg cfg saved)))
        \<and> inference_cfg.tokens_to_generate ic
            = test_ds_cfg.tokens_to_generate (test_ds (data (patch_peft_model_cfg cfg saved))))
     \<and> add_BOS ic = add_bos (test_ds (data (model cfg)))
     \<and> inference_cfg.tokens_to_generate ic = test_ds_cfg.tokens_to_generate (test_ds (data (model cfg)))
     \<and> SetInferenceConfig ic \<in> set (fst (main e
           (cfg\<lparr>inference := (inference cfg)\<lparr>add_BOS := b, inference_cfg.tokens_to_generate := n\<rparr>\<rparr>)))"
  unfolding set_inference_in_main
  by (auto simp: patch_inference_def patch_peft_model_cfg_def)

theorem inference_keys_overwritten_witness:
  "SetInferenceConfig \<lparr> outfile_path = Some ''out.txt'', add_BOS = True,
        inference_cfg.tokens_to_generate = 32, greedy = True \<rparr>
     \<in> set (fst (main example_env example_cfg))
   \<and> add_BOS (inference example_cfg) = False
   \<and> inference_cfg.tokens_to_generate (inference example_cfg) = 7
   \<and> add_bos (test_ds (data (model example_cfg))) = True
   \<and> test_ds_cfg.tokens_to_generate (test_ds (data (model example_cfg))) = 32
   \<and> add_bos (test_ds (data example_saved)) = False
   \<and> test_ds_cfg.tokens_to_generate (test_ds (data example_saved)) = 99"
  using inference_keys_overwritten[of "\<lparr> outfile_path = Some ''out.txt'', add_BOS = True,
        inference_cfg.tokens_to_generate = 32, greedy = True \<rparr>" example_env example_cfg]
  by (simp add: run_defs)

end
